theory Spec2Isabelle
  imports Complex_Main
begin

section \<open>Python values and arithmetic\<close>

text \<open>
  File names are relative to the root of the repository: \<^verbatim>\<open>copy_trader.py\<close> and
  \<^verbatim>\<open>binance_ws_client.py\<close> stand at the root, \<^verbatim>\<open>src/copy_trader.py\<close> and
  \<^verbatim>\<open>src/database.py\<close> in the package \<open>src\<close>.

  The bot computes with Python floats. They are modelled as exact rationals: every
  statement below is about the arithmetic the code writes down, not about the binary
  rounding of IEEE doubles. Exceptions are values of \<open>py_error\<close>; a function that can
  raise returns \<open>py_error + 'a\<close>.
\<close>

datatype py_error =
    ZeroDivisionError
  | TypeError
  | AttributeError
  | OperationalError
  | BinanceAPIException string

text \<open>
  An awaited call returns a value, raises, or never returns: a coroutine that waits
  for a lock that is not released.
\<close>

datatype 'a call_result = Returned 'a | Raised py_error | NeverReturns

text \<open>
  \<^verbatim>\<open>round(x, n)\<close> rounds to \<open>n\<close> decimals, ties going to the even neighbour. A
  decimal tie such as 0.0005 is a tie here, while the float nearest to it lies on one
  side of it.
\<close>

definition round_half_even :: "rat \<Rightarrow> int" where
  "round_half_even x =
     (let f = \<lfloor>x\<rfloor>; d = x - of_int f
      in if d < 1 / 2 then f
         else if 1 / 2 < d then f + 1
         else if even f then f else f + 1)"

definition py_round :: "rat \<Rightarrow> nat \<Rightarrow> rat" where
  "py_round x n = of_int (round_half_even (x * 10 ^ n)) / 10 ^ n"

text \<open>\<^verbatim>\<open>a / b\<close> on numbers raises ZeroDivisionError when \<open>b\<close> is zero.\<close>

definition py_truediv :: "rat \<Rightarrow> rat \<Rightarrow> py_error + rat" where
  "py_truediv a b = (if b = 0 then Inl ZeroDivisionError else Inr (a / b))"

section \<open>Quantity scaling in \<open>CopyTrader._copy_position_open\<close>\<close>

text \<open>
  Lines 184 to 192 of \<^verbatim>\<open>copy_trader.py\<close>:
  \<^verbatim>\<open>
  follower_amount = master_amount * risk_factor
  if abs(follower_amount * entry_price) > max_position_size:
      follower_amount = (max_position_size / entry_price) * (1 if follower_amount > 0 else -1)
  follower_amount = round(follower_amount, 3)
  \<close>
  The division raises when \<open>entry_price\<close> is zero; the branch is reached with a zero
  price only when \<open>max_position_size\<close> is negative.
\<close>

definition follower_amount :: "rat \<Rightarrow> rat \<Rightarrow> rat \<Rightarrow> rat \<Rightarrow> py_error + rat" where
  "follower_amount master_amount entry_price risk_factor max_position_size =
     (let fa = master_amount * risk_factor
      in if \<bar>fa * entry_price\<bar> > max_position_size
         then (case py_truediv max_position_size entry_price of
                 Inl e \<Rightarrow> Inl e
               | Inr q \<Rightarrow> Inr (py_round (q * (if fa > 0 then 1 else - 1)) 3))
         else Inr (py_round fa 3))"

lemma round_half_even_error: "\<bar>of_int (round_half_even y) - y\<bar> \<le> 1 / 2"
proof -
  define f where "f = (of_int \<lfloor>y\<rfloor> :: rat)"
  have lo: "f \<le> y" and hi: "y < f + 1"
    unfolding f_def by linarith+
  have "round_half_even y = \<lfloor>y\<rfloor> \<and> y - f \<le> 1 / 2
      \<or> round_half_even y = \<lfloor>y\<rfloor> + 1 \<and> 1 / 2 \<le> y - f"
    unfolding round_half_even_def Let_def f_def by (simp only: if_distrib) auto
  then show ?thesis
  proof
    assume "round_half_even y = \<lfloor>y\<rfloor> \<and> y - f \<le> 1 / 2"
    then have "of_int (round_half_even y) = f" and "y - f \<le> 1 / 2"
      by (simp_all add: f_def)
    with lo show ?thesis by linarith
  next
    assume "round_half_even y = \<lfloor>y\<rfloor> + 1 \<and> 1 / 2 \<le> y - f"
    then have "of_int (round_half_even y) = f + 1" and "1 / 2 \<le> y - f"
      by (simp_all add: f_def)
    with hi show ?thesis by linarith
  qed
qed

lemma py_round_3_error: "\<bar>py_round x 3 - x\<bar> \<le> 1 / 2000"
proof -
  have "\<bar>of_int (round_half_even (x * 1000)) - x * 1000\<bar> \<le> 1 / 2"
    by (rule round_half_even_error)
  then have "\<bar>(of_int (round_half_even (x * 1000)) - x * 1000) / 1000\<bar> \<le> (1 / 2) / 1000"
    by (simp add: abs_if split: if_splits)
  then show ?thesis
    by (simp add: py_round_def diff_divide_distrib)
qed

lemma rounded_notional:
  fixes e :: rat
  assumes e: "0 < e" and r: "\<bar>raw\<bar> * e \<le> mx"
  shows "\<bar>py_round raw 3\<bar> * e \<le> mx + e / 2000"
proof -
  have "\<bar>py_round raw 3\<bar> \<le> \<bar>raw\<bar> + 1 / 2000"
    using py_round_3_error [of raw] by linarith
  then have "\<bar>py_round raw 3\<bar> * e \<le> (\<bar>raw\<bar> + 1 / 2000) * e"
    using e by (simp add: mult_right_mono)
  also have "\<dots> = \<bar>raw\<bar> * e + e / 2000"
    by (simp add: algebra_simps)
  finally show ?thesis using r by linarith
qed

text \<open>
  C2. For a follower with \<open>risk_factor > 0\<close> and \<open>max_position_size > 0\<close> and a master
  position with \<open>entry_price > 0\<close>, the scaling returns a quantity (it does not raise),
  and the notional \<open>abs(quantity) * entry_price\<close> is at most \<open>max_position_size\<close> plus
  the price of the rounding error of three decimals, \<open>0.0005 * entry_price\<close>.
\<close>

theorem follower_amount_notional_bound:
  assumes "0 < risk_factor" and "0 < max_position_size" and "0 < entry_price"
  shows "\<exists>q. follower_amount master_amount entry_price risk_factor max_position_size = Inr q
           \<and> \<bar>q\<bar> * entry_price \<le> max_position_size + entry_price / 2000"
proof (cases "\<bar>master_amount * risk_factor * entry_price\<bar> > max_position_size")
  case True
  have "\<bar>max_position_size / entry_price * (if master_amount * risk_factor > 0 then 1 else - 1)\<bar>
          * entry_price \<le> max_position_size"
    using assms by (simp add: abs_mult)
  from rounded_notional [OF assms(3) this] True assms(3) show ?thesis
    by (simp add: follower_amount_def py_truediv_def Let_def)
next
  case False
  then have "\<bar>master_amount * risk_factor\<bar> * entry_price \<le> max_position_size"
    using assms(3) by (simp add: abs_mult)
  from rounded_notional [OF assms(3) this] False show ?thesis
    by (simp add: follower_amount_def Let_def)
qed

theorem follower_amount_notional_bound_witness:
  "follower_amount 1 50000 (1 / 10) 3000 = Inr (3 / 50)
   \<and> \<bar>3 / 50 :: rat\<bar> * 50000 \<le> 3000 + 50000 / 2000"
proof -
  have "\<exists>q. follower_amount 1 50000 (1 / 10) 3000 = Inr q
          \<and> \<bar>q\<bar> * 50000 \<le> 3000 + 50000 / 2000"
    by (rule follower_amount_notional_bound) simp_all
  moreover have "follower_amount 1 50000 (1 / 10) 3000 = Inr (3 / 50)"
    by (simp add: follower_amount_def py_truediv_def py_round_def round_half_even_def Let_def)
  ultimately show ?thesis by simp
qed

section \<open>The ledger: tables \<open>trades\<close> and \<open>master_trades\<close> of \<open>Database.init_db\<close>\<close>

text \<open>
  A table is the list of its rows in insertion order, each row paired with its
  \<open>id INTEGER PRIMARY KEY AUTOINCREMENT\<close>. The columns are those of the two
  \<^verbatim>\<open>CREATE TABLE\<close> statements of \<^verbatim>\<open>src/database.py\<close> that the modelled routines read
  or write; \<open>order_id\<close>, \<open>leverage\<close>, \<open>take_profit\<close>, \<open>stop_loss\<close> and
  \<open>created_at\<close> are left out. A nullable column is an option, \<open>None\<close> being NULL;
  a timestamp is a natural number. The column \<open>size\<close> is named \<open>trade_size\<close>.
  Neither statement declares a UNIQUE constraint.
\<close>

record master_trade =
  symbol :: string
  position_side :: string
  entry_price :: "rat option"
  trade_size :: "rat option"
  status :: string
  pnl :: "rat option"
  pnl_percent :: "rat option"
  closed_at :: "nat option"

record trade = master_trade +
  telegram_id :: int
  master_trade_id :: "nat option"

type_synonym 'r table = "(nat \<times> 'r) list"

record database =
  trades :: "trade table"
  trades_seq :: nat
  master_trades :: "master_trade table"
  master_trades_seq :: nat

text \<open>
  AUTOINCREMENT: the new id is one more than the largest id the table has ever held
  (\<open>sqlite_sequence\<close>, here the \<open>seq\<close> counter) and than every id in it now.
\<close>

definition next_rowid :: "'r table \<Rightarrow> nat \<Rightarrow> nat" where
  "next_rowid t seq = max seq (foldr max (map fst t) 0) + 1"

text \<open>
  The \<open>Database\<close> object: the database file and \<open>self.lock\<close>, an
  \<open>asyncio.Lock\<close>, which is not reentrant. Calls are taken one at a time, so the
  lock is free when a call starts unless an earlier call is stuck while holding it;
  \<open>lock_held\<close> says that it is held and will not be released.
\<close>

record db_handle =
  store :: database
  lock_held :: bool

text \<open>
  \<open>Database.add_audit_log\<close> (lines 461 to 471) starts with
  \<^verbatim>\<open>async with self.lock\<close>: with the lock held it waits forever. The row it
  writes goes to the table \<open>audit_log\<close>, which is not modelled.
\<close>

definition add_audit_log :: "db_handle \<Rightarrow> db_handle \<times> bool call_result" where
  "add_audit_log h = (if lock_held h then (h, NeverReturns) else (h, Returned True))"

text \<open>
  \<open>Database.add_user_trade\<close> (lines 350 to 374): under \<^verbatim>\<open>async with self.lock\<close>,
  one \<^verbatim>\<open>INSERT INTO trades\<close> of the given columns and the commit, with no SELECT
  before; then, still inside the block, \<^verbatim>\<open>await self.add_audit_log(...)\<close>; then
  \<^verbatim>\<open>return trade_id\<close>, the \<^verbatim>\<open>cursor.lastrowid\<close>. The dictionary
  \<open>trade_data\<close> is the record of its columns. \<open>ok\<close> says whether the INSERT
  succeeds; when sqlite raises, the exception leaves the block, which releases the
  lock, and goes to the caller.
\<close>

definition add_user_trade ::
  "bool \<Rightarrow> db_handle \<Rightarrow> trade \<Rightarrow> db_handle \<times> nat call_result" where
  "add_user_trade ok h trade_data =
     (if lock_held h then (h, NeverReturns)
      else if \<not> ok then (h, Raised OperationalError)
      else (let trade_id = next_rowid (trades (store h)) (trades_seq (store h));
                h1 = h\<lparr>store := (store h)\<lparr>trades := trades (store h) @ [(trade_id, trade_data)],
                                          trades_seq := trade_id\<rparr>,
                       lock_held := True\<rparr>
            in case add_audit_log h1 of
                 (h2, Returned b) \<Rightarrow> (h2\<lparr>lock_held := False\<rparr>, Returned trade_id)
               | (h2, Raised e) \<Rightarrow> (h2\<lparr>lock_held := False\<rparr>, Raised e)
               | (h2, NeverReturns) \<Rightarrow> (h2, NeverReturns)))"

text \<open>
  \<open>Database.get_user_statistics\<close> (lines 473 to 522). \<^verbatim>\<open>COUNT(*)\<close> counts rows,
  \<^verbatim>\<open>pnl > 0\<close> is false on NULL, \<^verbatim>\<open>SUM(pnl)\<close> skips NULLs and is NULL when nothing
  is left, and \<^verbatim>\<open>x or 0\<close> turns NULL and zero into 0. The two rows \<open>best_trade\<close> and
  \<open>worst_trade\<close> of the result are not modelled.
\<close>

fun sql_sum :: "rat option list \<Rightarrow> rat option" where
  "sql_sum [] = None"
| "sql_sum (None # xs) = sql_sum xs"
| "sql_sum (Some v # xs) = Some (case sql_sum xs of None \<Rightarrow> v | Some s \<Rightarrow> v + s)"

definition pnl_positive :: "trade \<Rightarrow> bool" where
  "pnl_positive r = (case pnl r of None \<Rightarrow> False | Some p \<Rightarrow> 0 < p)"

record statistics =
  total_trades :: nat
  winning_trades :: nat
  win_rate :: rat
  total_profit :: rat
  avg_profit :: rat

definition get_user_statistics :: "database \<Rightarrow> int \<Rightarrow> py_error + statistics" where
  "get_user_statistics db tid =
     (let total = length (filter (\<lambda>(i, r). telegram_id r = tid) (trades db));
          winning = length (filter (\<lambda>(i, r). telegram_id r = tid \<and> pnl_positive r) (trades db))
      in case (if 0 < total
               then (case py_truediv (of_nat winning) (of_nat total) of
                       Inl e \<Rightarrow> Inl e | Inr q \<Rightarrow> Inr (q * 100))
               else Inr 0) of
           Inl e \<Rightarrow> Inl e
         | Inr rate \<Rightarrow>
            (let profit =
                   (case sql_sum (map (\<lambda>(i, r). pnl r)
                                   (filter (\<lambda>(i, r). telegram_id r = tid) (trades db))) of
                      None \<Rightarrow> 0 | Some s \<Rightarrow> s)
             in case (if 0 < total then py_truediv profit (of_nat total) else Inr 0) of
                  Inl e \<Rightarrow> Inl e
                | Inr avg \<Rightarrow>
                    Inr \<lparr>total_trades = total, winning_trades = winning, win_rate = rate,
                         total_profit = profit, avg_profit = avg\<rparr>))"

lemma foldr_max_upper: "i \<in> set ids \<Longrightarrow> i \<le> foldr max ids (0::nat)"
  by (induction ids) (auto simp: max_def)

lemma next_rowid_fresh: "next_rowid t seq \<notin> fst ` set t"
proof
  assume "next_rowid t seq \<in> fst ` set t"
  then have "next_rowid t seq \<in> set (map fst t)" by simp
  then have "next_rowid t seq \<le> foldr max (map fst t) 0" by (rule foldr_max_upper)
  then show False by (simp add: next_rowid_def)
qed

lemma add_user_trade_never_returns: "snd (add_user_trade ok h trade_data) \<noteq> Returned i"
  by (simp add: add_user_trade_def add_audit_log_def Let_def)

text \<open>
  C1, as the code has it. \<open>add_user_trade\<close> makes no check of the pair
  \<open>(master_trade_id, telegram_id)\<close>: every call that gets the lock and whose INSERT
  succeeds appends and commits exactly one row holding the given data, under an id
  that no row of the table has. The id of an existing record is never returned.
\<close>

theorem add_user_trade_always_inserts:
  assumes "\<not> lock_held h"
  shows "trades (store (fst (add_user_trade True h trade_data)))
           = trades (store h) @
             [(next_rowid (trades (store h)) (trades_seq (store h)), trade_data)]
       \<and> next_rowid (trades (store h)) (trades_seq (store h)) \<notin> fst ` set (trades (store h))
       \<and> (\<forall>i \<in> fst ` set (trades (store h)). snd (add_user_trade ok h trade_data) \<noteq> Returned i)"
  using assms
  by (simp add: add_user_trade_def add_audit_log_def Let_def next_rowid_fresh)

theorem add_user_trade_always_inserts_witness:
  "map fst (trades (store (fst (add_user_trade True
      \<lparr>store = \<lparr>trades =
                [(1, \<lparr>symbol = ''BTCUSDT'', position_side = ''LONG'', entry_price = Some 50000,
                      trade_size = Some (3 / 50), status = ''OPEN'', pnl = None,
                      pnl_percent = None, closed_at = None, telegram_id = 7,
                      master_trade_id = Some 1\<rparr>)],
              trades_seq = 1, master_trades = [], master_trades_seq = 0\<rparr>, lock_held = False\<rparr>
      \<lparr>symbol = ''BTCUSDT'', position_side = ''LONG'', entry_price = Some 50000,
       trade_size = Some (3 / 50), status = ''OPEN'', pnl = None,
       pnl_percent = None, closed_at = None, telegram_id = 7,
       master_trade_id = Some 1\<rparr>)))) = [1, 2]
   \<and> snd (add_user_trade True
      \<lparr>store = \<lparr>trades =
                [(1, \<lparr>symbol = ''BTCUSDT'', position_side = ''LONG'', entry_price = Some 50000,
                      trade_size = Some (3 / 50), status = ''OPEN'', pnl = None,
                      pnl_percent = None, closed_at = None, telegram_id = 7,
                      master_trade_id = Some 1\<rparr>)],
              trades_seq = 1, master_trades = [], master_trades_seq = 0\<rparr>, lock_held = False\<rparr>
      \<lparr>symbol = ''BTCUSDT'', position_side = ''LONG'', entry_price = Some 50000,
       trade_size = Some (3 / 50), status = ''OPEN'', pnl = None,
       pnl_percent = None, closed_at = None, telegram_id = 7,
       master_trade_id = Some 1\<rparr>) \<noteq> Returned 1"
  using add_user_trade_always_inserts
    [where h = "\<lparr>store = \<lparr>trades =
                [(1, \<lparr>symbol = ''BTCUSDT'', position_side = ''LONG'', entry_price = Some 50000,
                      trade_size = Some (3 / 50), status = ''OPEN'', pnl = None,
                      pnl_percent = None, closed_at = None, telegram_id = 7,
                      master_trade_id = Some 1\<rparr>)],
              trades_seq = 1, master_trades = [], master_trades_seq = 0\<rparr>, lock_held = False\<rparr>"
       and ok = True
       and trade_data = "\<lparr>symbol = ''BTCUSDT'', position_side = ''LONG'',
          entry_price = Some 50000, trade_size = Some (3 / 50), status = ''OPEN'', pnl = None,
          pnl_percent = None, closed_at = None, telegram_id = 7,
          master_trade_id = Some 1\<rparr>"]
  by (simp add: next_rowid_def)

text \<open>
  C1, as the claim states it, fails. The ledger holds the OPEN follower trade of
  master trade 1 for follower 7 under id 1, and the lock is free; opening that trade
  again leaves two OPEN rows with the pair, and the existing record is not returned.
\<close>

theorem add_user_trade_duplicate_counterexample:
  "length (filter (\<lambda>(i, r). master_trade_id r = Some 1 \<and> telegram_id r = 7
                              \<and> status r \<noteq> ''FAILED'')
        (trades (store (fst (add_user_trade True
          \<lparr>store =
             \<lparr>trades =
                [(1, \<lparr>symbol = ''BTCUSDT'', position_side = ''LONG'', entry_price = Some 50000,
                      trade_size = Some (3 / 50), status = ''OPEN'', pnl = None,
                      pnl_percent = None, closed_at = None, telegram_id = 7,
                      master_trade_id = Some 1\<rparr>)],
              trades_seq = 1, master_trades = [], master_trades_seq = 0\<rparr>,
           lock_held = False\<rparr>
          \<lparr>symbol = ''BTCUSDT'', position_side = ''LONG'', entry_price = Some 50000,
           trade_size = Some (3 / 50), status = ''OPEN'', pnl = None,
           pnl_percent = None, closed_at = None, telegram_id = 7,
           master_trade_id = Some 1\<rparr>))))) = 2
   \<and> snd (add_user_trade True
          \<lparr>store =
             \<lparr>trades =
                [(1, \<lparr>symbol = ''BTCUSDT'', position_side = ''LONG'', entry_price = Some 50000,
                      trade_size = Some (3 / 50), status = ''OPEN'', pnl = None,
                      pnl_percent = None, closed_at = None, telegram_id = 7,
                      master_trade_id = Some 1\<rparr>)],
              trades_seq = 1, master_trades = [], master_trades_seq = 0\<rparr>,
           lock_held = False\<rparr>
          \<lparr>symbol = ''BTCUSDT'', position_side = ''LONG'', entry_price = Some 50000,
           trade_size = Some (3 / 50), status = ''OPEN'', pnl = None,
           pnl_percent = None, closed_at = None, telegram_id = 7,
           master_trade_id = Some 1\<rparr>) \<noteq> Returned 1"
  by (simp add: add_user_trade_def add_audit_log_def next_rowid_def Let_def)

text \<open>
  C10. The statistics query never raises. Its \<open>total_trades\<close> is the number of the
  user's rows; with none, \<open>win_rate\<close>, \<open>total_profit\<close> and \<open>avg_profit\<close> are 0; with
  some, \<open>win_rate = 100 * winning_trades / total_trades\<close>, where \<open>winning_trades\<close>
  counts the user's rows with \<open>pnl > 0\<close>, whatever their status.
\<close>

theorem get_user_statistics_spec:
  "\<exists>s. get_user_statistics db tid = Inr s
     \<and> total_trades s = length (filter (\<lambda>(i, r). telegram_id r = tid) (trades db))
     \<and> winning_trades s
         = length (filter (\<lambda>(i, r). telegram_id r = tid \<and> pnl_positive r) (trades db))
     \<and> (total_trades s = 0 \<longrightarrow> win_rate s = 0 \<and> total_profit s = 0 \<and> avg_profit s = 0)
     \<and> (0 < total_trades s \<longrightarrow>
           win_rate s = 100 * of_nat (winning_trades s) / of_nat (total_trades s))"
proof (cases "filter (\<lambda>(i, r). telegram_id r = tid) (trades db) = []")
  case True
  then show ?thesis
    by (simp add: get_user_statistics_def Let_def)
next
  case False
  then show ?thesis
    by (simp add: get_user_statistics_def Let_def py_truediv_def)
qed

theorem get_user_statistics_spec_witness:
  "(\<exists>s. get_user_statistics
          \<lparr>trades = [], trades_seq = 0, master_trades = [], master_trades_seq = 0\<rparr> 7 = Inr s
        \<and> total_trades s = 0 \<and> win_rate s = 0 \<and> total_profit s = 0 \<and> avg_profit s = 0)
   \<and> (\<exists>s. get_user_statistics
          \<lparr>trades =
             [(1, \<lparr>symbol = ''BTCUSDT'', position_side = ''LONG'', entry_price = Some 50000,
                   trade_size = Some 3000, status = ''CLOSED'', pnl = Some 60,
                   pnl_percent = Some 2, closed_at = Some 5, telegram_id = 7,
                   master_trade_id = None\<rparr>),
              (2, \<lparr>symbol = ''ETHUSDT'', position_side = ''SHORT'', entry_price = Some 2600,
                   trade_size = Some 100, status = ''OPEN'', pnl = None,
                   pnl_percent = None, closed_at = None, telegram_id = 7,
                   master_trade_id = None\<rparr>)],
            trades_seq = 2, master_trades = [], master_trades_seq = 0\<rparr> 7 = Inr s
        \<and> total_trades s = 2 \<and> winning_trades s = 1 \<and> win_rate s = 50)"
proof -
  let ?db0 = "\<lparr>trades = [], trades_seq = 0, master_trades = [], master_trades_seq = 0\<rparr>"
  let ?db2 = "\<lparr>trades =
             [(1, \<lparr>symbol = ''BTCUSDT'', position_side = ''LONG'', entry_price = Some 50000,
                   trade_size = Some 3000, status = ''CLOSED'', pnl = Some 60,
                   pnl_percent = Some 2, closed_at = Some 5, telegram_id = 7,
                   master_trade_id = None\<rparr>),
              (2, \<lparr>symbol = ''ETHUSDT'', position_side = ''SHORT'', entry_price = Some 2600,
                   trade_size = Some 100, status = ''OPEN'', pnl = None,
                   pnl_percent = None, closed_at = None, telegram_id = 7,
                   master_trade_id = None\<rparr>)],
            trades_seq = 2, master_trades = [], master_trades_seq = 0\<rparr>"
  show ?thesis
    using get_user_statistics_spec [of ?db0 7] get_user_statistics_spec [of ?db2 7]
    by (fastforce simp: pnl_positive_def)
qed

section \<open>Opening copies: \<open>CopyTrader._copy_position_open\<close>\<close>

text \<open>
  The exchange is outside the program. A follower's \<open>BinanceWebsocketClient\<close> is the
  record of what its calls answer during one master event: \<open>place_order\<close> returns
  (\<open>Inr ()\<close>) or raises (\<open>Inl e\<close>; the method logs and re-raises whatever the
  exchange or the network raised). \<open>follower_clients\<close> is the dictionary
  \<open>self.follower_clients\<close> in insertion order, keyed by \<open>telegram_id\<close>.
\<close>

record order_request =
  o_symbol :: string
  o_side :: string
  o_type :: string
  o_quantity :: rat
  o_price :: "rat option"
  o_stop_price :: "rat option"

record position =
  p_symbol :: string
  positionAmt :: rat

record follower_client =
  place_order :: "order_request \<Rightarrow> py_error + unit"
  get_positions :: "position list"
  close_position :: "string \<Rightarrow> string \<Rightarrow> py_error + unit"
  futures_cancel_all_open_orders :: "string \<Rightarrow> py_error + unit"

record follower_settings =
  risk_factor :: rat
  max_position_size :: rat
  take_profit :: rat
  stop_loss :: rat

record follower_data =
  client :: follower_client
  settings :: follower_settings

type_synonym follower_clients = "(int \<times> follower_data) list"

text \<open>
  The state an event works on: the database, and the log of the \<open>place_order\<close> calls
  made so far, each with the follower it was made for.
\<close>

record world =
  db :: database
  sent :: "(int \<times> order_request) list"

text \<open>
  \<open>CopyTrader._save_trade\<close> (lines 268 to 285): one INSERT of \<open>telegram_id\<close>,
  \<open>symbol\<close>, \<open>position_side\<close>, \<open>entry_price\<close>, \<open>size\<close> and \<open>status\<close>; the other
  columns stay NULL. The method catches every exception and only logs it: when
  sqlite raises, nothing is written. It does so on the table \<open>trades\<close> that
  \<open>init_db\<close> of \<^verbatim>\<open>telegram_copy_bot.py\<close> creates, which has no column
  \<open>telegram_id\<close> and no column \<open>size\<close>; on the table of \<open>Database.init_db\<close> the
  statement succeeds. \<open>ok\<close> says whether the statement succeeds.
\<close>

definition save_trade ::
  "bool \<Rightarrow> int \<Rightarrow> string \<Rightarrow> string \<Rightarrow> rat \<Rightarrow> rat \<Rightarrow> string \<Rightarrow> database \<Rightarrow> database" where
  "save_trade ok tid symb pside price sz st d =
     (if ok
      then d\<lparr>trades := trades d @
               [(next_rowid (trades d) (trades_seq d),
                 \<lparr>symbol = symb, position_side = pside, entry_price = Some price,
                  trade_size = Some sz, status = st, pnl = None, pnl_percent = None,
                  closed_at = None, telegram_id = tid, master_trade_id = None\<rparr>)],
             trades_seq := next_rowid (trades d) (trades_seq d)\<rparr>
      else d)"

definition market_order :: "string \<Rightarrow> string \<Rightarrow> rat \<Rightarrow> order_request" where
  "market_order symb pside amount =
     \<lparr>o_symbol = symb, o_side = (if pside = ''LONG'' then ''BUY'' else ''SELL''),
      o_type = ''MARKET'', o_quantity = \<bar>amount\<bar>, o_price = None, o_stop_price = None\<rparr>"

definition take_profit_order :: "string \<Rightarrow> string \<Rightarrow> rat \<Rightarrow> rat \<Rightarrow> rat \<Rightarrow> order_request" where
  "take_profit_order symb pside price tp amount =
     \<lparr>o_symbol = symb, o_side = (if pside = ''LONG'' then ''SELL'' else ''BUY''),
      o_type = ''LIMIT'', o_quantity = \<bar>amount\<bar>,
      o_price = Some (if pside = ''LONG'' then price * (1 + tp / 100)
                      else price * (1 - tp / 100)),
      o_stop_price = None\<rparr>"

definition stop_loss_order :: "string \<Rightarrow> string \<Rightarrow> rat \<Rightarrow> rat \<Rightarrow> rat \<Rightarrow> order_request" where
  "stop_loss_order symb pside price sl amount =
     \<lparr>o_symbol = symb, o_side = (if pside = ''LONG'' then ''SELL'' else ''BUY''),
      o_type = ''STOP_MARKET'', o_quantity = \<bar>amount\<bar>, o_price = None,
      o_stop_price = Some (if pside = ''LONG'' then price * (1 - sl / 100)
                           else price * (1 + sl / 100))\<rparr>"

text \<open>
  The \<^verbatim>\<open>try\<close> block of the loop body (lines 196 to 231), from its end: the
  \<open>STOP_MARKET\<close> order, the LIMIT order before it, the MARKET order and the ledger row
  before that. An exception raised by \<open>place_order\<close> leaves the block; the handler
  only logs. \<open>insert_ok\<close> says, for each follower, whether the INSERT of its
  \<open>_save_trade\<close> call succeeds.
\<close>

definition place_stop_loss ::
  "int \<Rightarrow> follower_data \<Rightarrow> string \<Rightarrow> string \<Rightarrow> rat \<Rightarrow> rat \<Rightarrow> world \<Rightarrow> world" where
  "place_stop_loss tid fd symb pside price amount w =
     (if 0 < stop_loss (settings fd)
      then w\<lparr>sent := sent w @
                [(tid, stop_loss_order symb pside price (stop_loss (settings fd)) amount)]\<rparr>
      else w)"

definition place_take_profit ::
  "int \<Rightarrow> follower_data \<Rightarrow> string \<Rightarrow> string \<Rightarrow> rat \<Rightarrow> rat \<Rightarrow> world \<Rightarrow> world" where
  "place_take_profit tid fd symb pside price amount w =
     (if 0 < take_profit (settings fd)
      then (case place_order (client fd)
                   (take_profit_order symb pside price (take_profit (settings fd)) amount) of
              Inl e \<Rightarrow>
                w\<lparr>sent := sent w @
                   [(tid, take_profit_order symb pside price (take_profit (settings fd)) amount)]\<rparr>
            | Inr u \<Rightarrow>
                place_stop_loss tid fd symb pside price amount
                  (w\<lparr>sent := sent w @
                     [(tid, take_profit_order symb pside price (take_profit (settings fd)) amount)]\<rparr>))
      else place_stop_loss tid fd symb pside price amount w)"

definition copy_open_orders ::
  "(int \<Rightarrow> bool) \<Rightarrow> int \<Rightarrow> follower_data \<Rightarrow> string \<Rightarrow> string \<Rightarrow> rat \<Rightarrow> rat \<Rightarrow> world \<Rightarrow> world" where
  "copy_open_orders insert_ok tid fd symb pside price amount w =
     (case place_order (client fd) (market_order symb pside amount) of
        Inl e \<Rightarrow> w\<lparr>sent := sent w @ [(tid, market_order symb pside amount)]\<rparr>
      | Inr u \<Rightarrow>
          place_take_profit tid fd symb pside price amount
            (w\<lparr>sent := sent w @ [(tid, market_order symb pside amount)],
               db := save_trade (insert_ok tid) tid symb pside price (\<bar>amount\<bar> * price)
                       ''OPEN'' (db w)\<rparr>))"

text \<open>
  The loop over the followers (lines 174 to 231). The scaling stands outside the
  \<^verbatim>\<open>try\<close> block: when it raises, the loop is left with what was done so far and
  the exception goes to the caller.
\<close>

fun copy_position_open ::
  "(int \<Rightarrow> bool) \<Rightarrow> follower_clients \<Rightarrow> string \<Rightarrow> string \<Rightarrow> rat \<Rightarrow> rat \<Rightarrow> world
     \<Rightarrow> world \<times> py_error option" where
  "copy_position_open insert_ok [] symb pside master_amount price w = (w, None)"
| "copy_position_open insert_ok ((tid, fd) # fs) symb pside master_amount price w =
     (case follower_amount master_amount price
             (risk_factor (settings fd)) (max_position_size (settings fd)) of
        Inl e \<Rightarrow> (w, Some e)
      | Inr amount \<Rightarrow>
          copy_position_open insert_ok fs symb pside master_amount price
            (copy_open_orders insert_ok tid fd symb pside price amount w))"

text \<open>
  What an event does for the followers other than \<open>a\<close>: the orders placed for them
  and the rows written for them, without the ids. \<open>with_client a c\<close> gives follower
  \<open>a\<close> the client \<open>c\<close>.
\<close>

definition others_sent :: "int \<Rightarrow> world \<Rightarrow> (int \<times> order_request) list" where
  "others_sent a w = filter (\<lambda>(t, ord). t \<noteq> a) (sent w)"

definition others_rows :: "int \<Rightarrow> world \<Rightarrow> trade list" where
  "others_rows a w = filter (\<lambda>r. telegram_id r \<noteq> a) (map snd (trades (db w)))"

definition with_client :: "int \<Rightarrow> follower_client \<Rightarrow> follower_clients \<Rightarrow> follower_clients" where
  "with_client a c fs = map (\<lambda>(t, fd). (t, if t = a then fd\<lparr>client := c\<rparr> else fd)) fs"

text \<open>Fixtures: two clients, the settings of the scenario, the empty state.\<close>

abbreviation accepting_client :: follower_client where
  "accepting_client \<equiv>
     \<lparr>place_order = (\<lambda>ord. Inr ()), get_positions = [],
      close_position = (\<lambda>s p. Inr ()), futures_cancel_all_open_orders = (\<lambda>s. Inr ())\<rparr>"

abbreviation rejecting_client :: follower_client where
  "rejecting_client \<equiv>
     \<lparr>place_order = (\<lambda>ord. Inl (BinanceAPIException ''Margin is insufficient.'')),
      get_positions = [],
      close_position = (\<lambda>s p. Inr ()), futures_cancel_all_open_orders = (\<lambda>s. Inr ())\<rparr>"

abbreviation scenario_settings :: follower_settings where
  "scenario_settings \<equiv>
     \<lparr>risk_factor = 1 / 10, max_position_size = 3000, take_profit = 0, stop_loss = 0\<rparr>"

abbreviation empty_world :: world where
  "empty_world \<equiv>
     \<lparr>db = \<lparr>trades = [], trades_seq = 0, master_trades = [], master_trades_seq = 0\<rparr>,
      sent = []\<rparr>"

lemma place_stop_loss_frame:
  "\<exists>os. \<forall>w. sent (place_stop_loss tid fd symb pside price amount w) = sent w @ map (Pair tid) os
        \<and> db (place_stop_loss tid fd symb pside price amount w) = db w"
proof (cases "0 < stop_loss (settings fd)")
  case True
  then have "\<forall>w. sent (place_stop_loss tid fd symb pside price amount w)
                 = sent w @ map (Pair tid) [stop_loss_order symb pside price (stop_loss (settings fd)) amount]
        \<and> db (place_stop_loss tid fd symb pside price amount w) = db w"
    by (simp add: place_stop_loss_def)
  then show ?thesis by blast
next
  case False
  then have "\<forall>w. sent (place_stop_loss tid fd symb pside price amount w) = sent w @ map (Pair tid) []
        \<and> db (place_stop_loss tid fd symb pside price amount w) = db w"
    by (simp add: place_stop_loss_def)
  then show ?thesis by blast
qed

lemma place_take_profit_frame:
  "\<exists>os. \<forall>w. sent (place_take_profit tid fd symb pside price amount w) = sent w @ map (Pair tid) os
        \<and> db (place_take_profit tid fd symb pside price amount w) = db w"
proof -
  obtain sl where sl: "\<And>w. sent (place_stop_loss tid fd symb pside price amount w) = sent w @ map (Pair tid) sl"
      "\<And>w. db (place_stop_loss tid fd symb pside price amount w) = db w"
    using place_stop_loss_frame [of tid fd symb pside price amount] by blast
  let ?tp = "take_profit_order symb pside price (take_profit (settings fd)) amount"
  consider (none) "\<not> 0 < take_profit (settings fd)"
    | (fail) e where "0 < take_profit (settings fd)" "place_order (client fd) ?tp = Inl e"
    | (ok) u where "0 < take_profit (settings fd)" "place_order (client fd) ?tp = Inr u"
    by (cases "place_order (client fd) ?tp") auto
  then show ?thesis
  proof cases
    case none
    then have "\<forall>w. sent (place_take_profit tid fd symb pside price amount w) = sent w @ map (Pair tid) sl
        \<and> db (place_take_profit tid fd symb pside price amount w) = db w"
      by (simp add: place_take_profit_def sl)
    then show ?thesis by blast
  next
    case fail
    then have "\<forall>w. sent (place_take_profit tid fd symb pside price amount w) = sent w @ map (Pair tid) [?tp]
        \<and> db (place_take_profit tid fd symb pside price amount w) = db w"
      by (simp add: place_take_profit_def)
    then show ?thesis by blast
  next
    case ok
    then have "\<forall>w. sent (place_take_profit tid fd symb pside price amount w) = sent w @ map (Pair tid) (?tp # sl)
        \<and> db (place_take_profit tid fd symb pside price amount w) = db w"
      by (simp add: place_take_profit_def sl)
    then show ?thesis by blast
  qed
qed

lemma copy_open_orders_trades:
  "trades (db (copy_open_orders insert_ok tid fd symb pside price amount w))
     = (case place_order (client fd) (market_order symb pside amount) of
          Inl e \<Rightarrow> trades (db w)
        | Inr u \<Rightarrow> trades (db w) @
            (if insert_ok tid
             then [(next_rowid (trades (db w)) (trades_seq (db w)),
                    \<lparr>symbol = symb, position_side = pside, entry_price = Some price,
                     trade_size = Some (\<bar>amount\<bar> * price), status = ''OPEN'', pnl = None,
                     pnl_percent = None, closed_at = None, telegram_id = tid,
                     master_trade_id = None\<rparr>)]
             else []))"
proof -
  obtain tp where "\<And>w. db (place_take_profit tid fd symb pside price amount w) = db w"
    using place_take_profit_frame [of tid fd symb pside price amount] by blast
  then show ?thesis
    by (simp add: copy_open_orders_def save_trade_def split: sum.splits)
qed

lemma copy_open_orders_sent:
  "\<exists>os. \<forall>w. sent (copy_open_orders insert_ok tid fd symb pside price amount w)
               = sent w @ (tid, market_order symb pside amount) # map (Pair tid) os"
proof -
  obtain tp where tp: "\<And>w. sent (place_take_profit tid fd symb pside price amount w) = sent w @ map (Pair tid) tp"
    using place_take_profit_frame [of tid fd symb pside price amount] by blast
  show ?thesis
  proof (cases "place_order (client fd) (market_order symb pside amount)")
    case (Inl e)
    then have "\<forall>w. sent (copy_open_orders insert_ok tid fd symb pside price amount w)
               = sent w @ (tid, market_order symb pside amount) # map (Pair tid) []"
      by (simp add: copy_open_orders_def)
    then show ?thesis by blast
  next
    case (Inr u)
    then have "\<forall>w. sent (copy_open_orders insert_ok tid fd symb pside price amount w)
               = sent w @ (tid, market_order symb pside amount) # map (Pair tid) tp"
      by (simp add: copy_open_orders_def tp)
    then show ?thesis by blast
  qed
qed

lemma others_sent_step:
  assumes "others_sent a w = others_sent a w'"
  shows "others_sent a (copy_open_orders insert_ok tid fd symb pside price amount w)
       = others_sent a (copy_open_orders insert_ok tid fd symb pside price amount w')"
proof -
  obtain os where "\<And>w. sent (copy_open_orders insert_ok tid fd symb pside price amount w)
               = sent w @ (tid, market_order symb pside amount) # map (Pair tid) os"
    using copy_open_orders_sent [of insert_ok tid fd symb pside price amount] by blast
  then show ?thesis using assms by (simp add: others_sent_def)
qed

lemma others_sent_own:
  "others_sent a (copy_open_orders insert_ok a fd symb pside price amount w) = others_sent a w"
proof -
  obtain os where "\<And>w. sent (copy_open_orders insert_ok a fd symb pside price amount w)
               = sent w @ (a, market_order symb pside amount) # map (Pair a) os"
    using copy_open_orders_sent [of insert_ok a fd symb pside price amount] by blast
  then show ?thesis by (simp add: others_sent_def filter_empty_conv)
qed

lemma others_rows_step:
  assumes "others_rows a w = others_rows a w'"
  shows "others_rows a (copy_open_orders insert_ok tid fd symb pside price amount w)
       = others_rows a (copy_open_orders insert_ok tid fd symb pside price amount w')"
  using assms by (simp add: others_rows_def copy_open_orders_trades split: sum.splits)

lemma others_rows_own:
  "others_rows a (copy_open_orders insert_ok a fd symb pside price amount w) = others_rows a w"
  by (simp add: others_rows_def copy_open_orders_trades split: sum.splits)

lemma open_isolation_gen:
  assumes "others_sent a w = others_sent a w'" and "others_rows a w = others_rows a w'"
  shows "others_sent a (fst (copy_position_open insert_ok (with_client a c fs) symb pside m price w))
           = others_sent a (fst (copy_position_open insert_ok fs symb pside m price w'))
       \<and> others_rows a (fst (copy_position_open insert_ok (with_client a c fs) symb pside m price w))
           = others_rows a (fst (copy_position_open insert_ok fs symb pside m price w'))
       \<and> snd (copy_position_open insert_ok (with_client a c fs) symb pside m price w)
           = snd (copy_position_open insert_ok fs symb pside m price w')"
  using assms
proof (induction fs arbitrary: w w')
  case Nil
  then show ?case by (simp add: with_client_def)
next
  case (Cons f fs)
  obtain tid fd where f: "f = (tid, fd)" by (cases f)
  show ?case
  proof (cases "follower_amount m price (risk_factor (settings fd)) (max_position_size (settings fd))")
    case (Inl e)
    then show ?thesis using Cons.prems by (simp add: f with_client_def)
  next
    case (Inr amount)
    show ?thesis
    proof (cases "tid = a")
      case True
      have "others_sent a (copy_open_orders insert_ok a (fd\<lparr>client := c\<rparr>) symb pside price amount w)
              = others_sent a (copy_open_orders insert_ok a fd symb pside price amount w')"
        and "others_rows a (copy_open_orders insert_ok a (fd\<lparr>client := c\<rparr>) symb pside price amount w)
              = others_rows a (copy_open_orders insert_ok a fd symb pside price amount w')"
        using Cons.prems by (simp_all add: others_sent_own others_rows_own)
      from Cons.IH [OF this] True Inr show ?thesis
        by (simp add: f with_client_def)
    next
      case False
      have "others_sent a (copy_open_orders insert_ok tid fd symb pside price amount w)
              = others_sent a (copy_open_orders insert_ok tid fd symb pside price amount w')"
        and "others_rows a (copy_open_orders insert_ok tid fd symb pside price amount w)
              = others_rows a (copy_open_orders insert_ok tid fd symb pside price amount w')"
        by (rule others_sent_step [OF Cons.prems(1)], rule others_rows_step [OF Cons.prems(2)])
      from Cons.IH [OF this] False Inr show ?thesis
        by (simp add: f with_client_def)
    qed
  qed
qed

text \<open>
  C7. Replace the client of one follower \<open>a\<close> by any other client, so that its
  \<open>place_order\<close> raises, rejects or accepts differently. For the same master event
  the \<open>place_order\<close> calls made for every other follower are the same, in the same
  order; the rows written for every other follower are the same (up to the
  autoincremented id, which counts the rows of \<open>a\<close> too); and the loop ends the same
  way. This holds for every way the INSERT statements succeed or raise.
\<close>

theorem open_isolation:
  "others_sent a (fst (copy_position_open insert_ok (with_client a c fs) symb pside m price w))
     = others_sent a (fst (copy_position_open insert_ok fs symb pside m price w))
   \<and> others_rows a (fst (copy_position_open insert_ok (with_client a c fs) symb pside m price w))
     = others_rows a (fst (copy_position_open insert_ok fs symb pside m price w))
   \<and> snd (copy_position_open insert_ok (with_client a c fs) symb pside m price w)
     = snd (copy_position_open insert_ok fs symb pside m price w)"
  by (rule open_isolation_gen) simp_all

lemma follower_amount_scenario: "follower_amount 1 50000 (1 / 10) 3000 = Inr (3 / 50)"
  by (simp add: follower_amount_def py_truediv_def py_round_def round_half_even_def Let_def)


lemma market_filter_take_profit:
  "filter (\<lambda>(t, ord). o_type ord = ''MARKET'') (sent (place_take_profit tid fd symb pside price amount w))
     = filter (\<lambda>(t, ord). o_type ord = ''MARKET'') (sent w)"
  by (simp add: place_take_profit_def place_stop_loss_def take_profit_order_def
        stop_loss_order_def split: sum.splits)

lemma market_filter_copy_open_orders:
  "filter (\<lambda>(t, ord). o_type ord = ''MARKET'') (sent (copy_open_orders insert_ok tid fd symb pside price amount w))
     = filter (\<lambda>(t, ord). o_type ord = ''MARKET'') (sent w) @ [(tid, market_order symb pside amount)]"
  by (simp add: copy_open_orders_def market_filter_take_profit split: sum.splits)
     (simp add: market_order_def)


text \<open>
  C5, as the code has it. Master LONG 1.0 BTCUSDT at 50000, a follower with
  \<open>risk_factor = 0.1\<close> and \<open>max_position_size = 3000\<close> whose client accepts the
  MARKET order: exactly one MARKET order is placed for it, BUY with quantity 0.060.
  When the INSERT of \<open>_save_trade\<close> succeeds, exactly one row is written, OPEN, with
  entry price 50000 and \<open>size = 3000\<close>, the USDT notional
  \<open>abs(quantity) * entry_price\<close> that line 206 passes to \<open>_save_trade\<close>; when
  sqlite raises, no row is written.
\<close>

theorem scenario_open_long:
  assumes "risk_factor (settings fd) = 1 / 10" and "max_position_size (settings fd) = 3000"
    and "place_order (client fd) (market_order ''BTCUSDT'' ''LONG'' (3 / 50)) = Inr ()"
  shows "filter (\<lambda>(t, ord). o_type ord = ''MARKET'')
           (sent (fst (copy_position_open insert_ok [(tid, fd)] ''BTCUSDT'' ''LONG'' 1 50000 w)))
         = filter (\<lambda>(t, ord). o_type ord = ''MARKET'') (sent w) @
           [(tid, \<lparr>o_symbol = ''BTCUSDT'', o_side = ''BUY'', o_type = ''MARKET'',
                   o_quantity = 3 / 50, o_price = None, o_stop_price = None\<rparr>)]
       \<and> trades (db (fst (copy_position_open insert_ok [(tid, fd)] ''BTCUSDT'' ''LONG'' 1 50000 w)))
         = trades (db w) @
           (if insert_ok tid
            then [(next_rowid (trades (db w)) (trades_seq (db w)),
                   \<lparr>symbol = ''BTCUSDT'', position_side = ''LONG'', entry_price = Some 50000,
                    trade_size = Some 3000, status = ''OPEN'', pnl = None, pnl_percent = None,
                    closed_at = None, telegram_id = tid, master_trade_id = None\<rparr>)]
            else [])
       \<and> snd (copy_position_open insert_ok [(tid, fd)] ''BTCUSDT'' ''LONG'' 1 50000 w) = None"
proof -
  have amount: "follower_amount 1 50000 (risk_factor (settings fd))
                  (max_position_size (settings fd)) = Inr (3 / 50)"
    by (simp only: assms(1,2) follower_amount_scenario)
  have order: "market_order ''BTCUSDT'' ''LONG'' (3 / 50)
      = \<lparr>o_symbol = ''BTCUSDT'', o_side = ''BUY'', o_type = ''MARKET'',
         o_quantity = 3 / 50, o_price = None, o_stop_price = None\<rparr>"
    by (simp add: market_order_def)
  show ?thesis
    using assms(3)
    by (simp add: amount market_filter_copy_open_orders copy_open_orders_trades)
       (simp add: order)
qed

theorem scenario_open_long_witness:
  "map snd (filter (\<lambda>(t, ord). o_type ord = ''MARKET'')
      (sent (fst (copy_position_open (\<lambda>t. True)
         [(1, \<lparr>client = accepting_client,
                settings = \<lparr>risk_factor = 1 / 10, max_position_size = 3000,
                            take_profit = 5, stop_loss = 3\<rparr>\<rparr>)]
         ''BTCUSDT'' ''LONG'' 1 50000 empty_world))))
     = [\<lparr>o_symbol = ''BTCUSDT'', o_side = ''BUY'', o_type = ''MARKET'',
         o_quantity = 3 / 50, o_price = None, o_stop_price = None\<rparr>]
   \<and> trades (db (fst (copy_position_open (\<lambda>t. True)
         [(1, \<lparr>client = accepting_client,
                settings = \<lparr>risk_factor = 1 / 10, max_position_size = 3000,
                            take_profit = 5, stop_loss = 3\<rparr>\<rparr>)]
         ''BTCUSDT'' ''LONG'' 1 50000 empty_world)))
     = [(1, \<lparr>symbol = ''BTCUSDT'', position_side = ''LONG'', entry_price = Some 50000,
             trade_size = Some 3000, status = ''OPEN'', pnl = None, pnl_percent = None,
             closed_at = None, telegram_id = 1, master_trade_id = None\<rparr>)]
   \<and> trades (db (fst (copy_position_open (\<lambda>t. False)
         [(1, \<lparr>client = accepting_client,
                settings = \<lparr>risk_factor = 1 / 10, max_position_size = 3000,
                            take_profit = 5, stop_loss = 3\<rparr>\<rparr>)]
         ''BTCUSDT'' ''LONG'' 1 50000 empty_world))) = []"
  using scenario_open_long [where fd = "\<lparr>client = accepting_client,
                settings = \<lparr>risk_factor = 1 / 10, max_position_size = 3000,
                            take_profit = 5, stop_loss = 3\<rparr>\<rparr>"
            and tid = 1 and w = empty_world and insert_ok = "\<lambda>t. True"]
        scenario_open_long [where fd = "\<lparr>client = accepting_client,
                settings = \<lparr>risk_factor = 1 / 10, max_position_size = 3000,
                            take_profit = 5, stop_loss = 3\<rparr>\<rparr>"
            and tid = 1 and w = empty_world and insert_ok = "\<lambda>t. False"]
  by (simp add: next_rowid_def)

text \<open>
  C5, as the claim states it, fails on the row. In the scenario, the row written when
  the INSERT succeeds holds the size 3000, not 0.060; and when the INSERT raises, as
  it does on the table \<open>trades\<close> of \<^verbatim>\<open>telegram_copy_bot.py\<close>, no row is created.
\<close>

theorem scenario_size_counterexample:
  "map (\<lambda>(i, r). trade_size r)
     (trades (db (fst (copy_position_open (\<lambda>t. True)
         [(1, \<lparr>client = accepting_client, settings = scenario_settings\<rparr>)]
         ''BTCUSDT'' ''LONG'' 1 50000 empty_world)))) = [Some 3000]
   \<and> Some 3000 \<noteq> Some (3 / 50 :: rat)
   \<and> trades (db (fst (copy_position_open (\<lambda>t. False)
         [(1, \<lparr>client = accepting_client, settings = scenario_settings\<rparr>)]
         ''BTCUSDT'' ''LONG'' 1 50000 empty_world))) = []"
  by (simp add: follower_amount_scenario copy_open_orders_trades)




text \<open>
  C8, as the code has it. The handler of line 230 only logs. Every row the open path
  adds to the ledger has status OPEN and belongs to a follower whose MARKET order was
  accepted: for a follower whose order raised, nothing is written, neither a FAILED
  row nor a reason. This holds whether the INSERT statements succeed or raise.
\<close>

theorem open_rows_only_for_accepted:
  "\<exists>new. trades (db (fst (copy_position_open insert_ok fs symb pside m price w))) = trades (db w) @ new
     \<and> (\<forall>(i, r) \<in> set new. status r = ''OPEN''
          \<and> (\<exists>fd amount. (telegram_id r, fd) \<in> set fs
               \<and> follower_amount m price (risk_factor (settings fd))
                    (max_position_size (settings fd)) = Inr amount
               \<and> place_order (client fd) (market_order symb pside amount) = Inr ()))"
proof (induction fs arbitrary: w)
  case Nil
  show ?case by simp
next
  case (Cons f fs)
  obtain tid fd where f: "f = (tid, fd)" by (cases f)
  show ?case
  proof (cases "follower_amount m price (risk_factor (settings fd)) (max_position_size (settings fd))")
    case (Inl e)
    then show ?thesis by (simp add: f)
  next
    case (Inr amount)
    let ?w1 = "copy_open_orders insert_ok tid fd symb pside price amount w"
    let ?row = "(next_rowid (trades (db w)) (trades_seq (db w)),
              \<lparr>symbol = symb, position_side = pside, entry_price = Some price,
               trade_size = Some (\<bar>amount\<bar> * price), status = ''OPEN'', pnl = None,
               pnl_percent = None, closed_at = None, telegram_id = tid,
               master_trade_id = None\<rparr>)"
    obtain new where new: "trades (db (fst (copy_position_open insert_ok fs symb pside m price ?w1)))
          = trades (db ?w1) @ new"
      and ok: "\<forall>(i, r) \<in> set new. status r = ''OPEN''
          \<and> (\<exists>fd amount. (telegram_id r, fd) \<in> set fs
               \<and> follower_amount m price (risk_factor (settings fd))
                    (max_position_size (settings fd)) = Inr amount
               \<and> place_order (client fd) (market_order symb pside amount) = Inr ())"
      using Cons.IH [of ?w1] by blast
    have ok': "\<forall>(i, r) \<in> set new. status r = ''OPEN''
          \<and> (\<exists>fd amount. (telegram_id r, fd) \<in> set (f # fs)
               \<and> follower_amount m price (risk_factor (settings fd))
                    (max_position_size (settings fd)) = Inr amount
               \<and> place_order (client fd) (market_order symb pside amount) = Inr ())"
      using ok by fastforce
    consider (nothing) "trades (db ?w1) = trades (db w)"
      | (row) "trades (db ?w1) = trades (db w) @ [?row]"
          "place_order (client fd) (market_order symb pside amount) = Inr ()"
      by (cases "place_order (client fd) (market_order symb pside amount)";
          cases "insert_ok tid") (simp_all add: copy_open_orders_trades)
    then show ?thesis
    proof cases
      case nothing
      with new ok' Inr show ?thesis by (simp add: f)
    next
      case row
      have "\<exists>fd' amount'. (tid, fd') \<in> set (f # fs)
               \<and> follower_amount m price (risk_factor (settings fd'))
                    (max_position_size (settings fd')) = Inr amount'
               \<and> place_order (client fd') (market_order symb pside amount') = Inr ()"
        using Inr row(2) f by auto
      then have "\<forall>(i, r) \<in> set (?row # new). status r = ''OPEN''
          \<and> (\<exists>fd amount. (telegram_id r, fd) \<in> set (f # fs)
               \<and> follower_amount m price (risk_factor (settings fd))
                    (max_position_size (settings fd)) = Inr amount
               \<and> place_order (client fd) (market_order symb pside amount) = Inr ())"
        using ok' by simp
      moreover have "trades (db (fst (copy_position_open insert_ok (f # fs) symb pside m price w)))
          = trades (db w) @ (?row # new)"
        using new row(1) Inr by (simp add: f)
      ultimately show ?thesis by blast
    qed
  qed
qed

theorem open_rows_only_for_accepted_witness:
  "map (\<lambda>(i, r). (telegram_id r, status r))
     (trades (db (fst (copy_position_open (\<lambda>t. True)
        [(7, \<lparr>client = rejecting_client, settings = scenario_settings\<rparr>),
         (8, \<lparr>client = accepting_client, settings = scenario_settings\<rparr>)]
        ''BTCUSDT'' ''LONG'' 1 50000 empty_world)))) = [(8, ''OPEN'')]"
  using open_rows_only_for_accepted
          [where fs = "[(7, \<lparr>client = rejecting_client, settings = scenario_settings\<rparr>),
                (8, \<lparr>client = accepting_client, settings = scenario_settings\<rparr>)]"
             and symb = "''BTCUSDT''" and pside = "''LONG''" and m = 1 and price = 50000
             and w = empty_world and insert_ok = "\<lambda>t. True"]
  by (simp add: follower_amount_scenario copy_open_orders_trades)

text \<open>
  C8, as the claim states it, fails: the MARKET order of follower 7 is rejected, and
  the ledger stays empty, on a table where the INSERT would have succeeded as on one
  where it raises.
\<close>

theorem failed_dispatch_counterexample:
  "sent (fst (copy_position_open (\<lambda>t. True)
           [(7, \<lparr>client = rejecting_client, settings = scenario_settings\<rparr>)]
           ''BTCUSDT'' ''LONG'' 1 50000 empty_world))
     = [(7, \<lparr>o_symbol = ''BTCUSDT'', o_side = ''BUY'', o_type = ''MARKET'',
             o_quantity = 3 / 50, o_price = None, o_stop_price = None\<rparr>)]
   \<and> trades (db (fst (copy_position_open (\<lambda>t. True)
           [(7, \<lparr>client = rejecting_client, settings = scenario_settings\<rparr>)]
           ''BTCUSDT'' ''LONG'' 1 50000 empty_world))) = []
   \<and> trades (db (fst (copy_position_open (\<lambda>t. False)
           [(7, \<lparr>client = rejecting_client, settings = scenario_settings\<rparr>)]
           ''BTCUSDT'' ''LONG'' 1 50000 empty_world))) = []"
  by (simp add: follower_amount_scenario copy_open_orders_def market_order_def)

section \<open>Closing copies: \<open>CopyTrader._copy_position_close\<close>\<close>

text \<open>
  \<open>CopyTrader._update_trade_status\<close> (lines 287 to 319): one UPDATE of the rows
  \<^verbatim>\<open>WHERE telegram_id = ? AND symbol = ? AND status = 'OPEN'\<close>, setting \<open>status\<close>
  and \<open>closed_at\<close>, and \<open>pnl\<close> and \<open>pnl_percent\<close> when they are given. \<open>now\<close> is
  the value of \<^verbatim>\<open>CURRENT_TIMESTAMP\<close>. The method catches every exception and only
  logs it: when sqlite raises, nothing is changed. It does so on the table \<open>trades\<close>
  of \<^verbatim>\<open>telegram_copy_bot.py\<close>, which has no column \<open>telegram_id\<close> and no column
  \<open>closed_at\<close>. \<open>ok\<close> says whether the statement succeeds.
\<close>

definition update_trade_status ::
  "bool \<Rightarrow> int \<Rightarrow> string \<Rightarrow> string \<Rightarrow> rat option \<Rightarrow> rat option \<Rightarrow> nat \<Rightarrow> database
     \<Rightarrow> database" where
  "update_trade_status ok tid symb st pnl_arg pnl_percent_arg now d =
     (if ok
      then d\<lparr>trades :=
             map (\<lambda>(i, r).
                    if telegram_id r = tid \<and> symbol r = symb \<and> status r = ''OPEN''
                    then (i, r\<lparr>status := st, closed_at := Some now,
                               pnl := (case pnl_arg of None \<Rightarrow> pnl r | Some v \<Rightarrow> Some v),
                               pnl_percent := (case pnl_percent_arg of
                                                 None \<Rightarrow> pnl_percent r | Some v \<Rightarrow> Some v)\<rparr>)
                    else (i, r))
                 (trades d)\<rparr>
      else d)"

text \<open>
  The inner loop of \<open>_copy_position_close\<close> (lines 243 to 256) over the positions
  the follower's client reports: for a position of the symbol, \<open>close_position\<close>,
  then \<open>futures_cancel_all_open_orders\<close>, then the ledger update without PnL. An
  exception raised by either call leaves the follower's \<^verbatim>\<open>try\<close> block.
  \<open>update_ok\<close> says, for each follower, whether the UPDATE statements of its
  \<open>_update_trade_status\<close> calls succeed.
\<close>

fun close_positions ::
  "(int \<Rightarrow> bool) \<Rightarrow> follower_client \<Rightarrow> int \<Rightarrow> string \<Rightarrow> nat \<Rightarrow> position list \<Rightarrow> database
     \<Rightarrow> database" where
  "close_positions update_ok c tid symb now [] d = d"
| "close_positions update_ok c tid symb now (p # ps) d =
     (if p_symbol p = symb
      then (case close_position c symb (if 0 < positionAmt p then ''LONG'' else ''SHORT'') of
              Inl e \<Rightarrow> d
            | Inr u \<Rightarrow>
               (case futures_cancel_all_open_orders c symb of
                  Inl e \<Rightarrow> d
                | Inr v \<Rightarrow>
                    close_positions update_ok c tid symb now ps
                      (update_trade_status (update_ok tid) tid symb ''CLOSED'' None None now d)))
      else close_positions update_ok c tid symb now ps d)"

text \<open>The loop over the followers (lines 235 to 258).\<close>

fun copy_position_close ::
  "(int \<Rightarrow> bool) \<Rightarrow> follower_clients \<Rightarrow> string \<Rightarrow> nat \<Rightarrow> database \<Rightarrow> database" where
  "copy_position_close update_ok [] symb now d = d"
| "copy_position_close update_ok ((tid, fd) # fs) symb now d =
     copy_position_close update_ok fs symb now
       (close_positions update_ok (client fd) tid symb now (get_positions (client fd)) d)"

text \<open>
  Three notions to state the replay. A follower's client \<open>reaches_update\<close> when the
  inner loop arrives at the ledger update: some reported position has the symbol, and
  for the first such position both calls return. \<open>closers\<close> lists the followers
  whose clients do and whose UPDATE succeeds. \<open>no_open_trade\<close> says that the ledger
  has no OPEN row of a follower and a symbol.
\<close>

fun reaches_update :: "follower_client \<Rightarrow> string \<Rightarrow> position list \<Rightarrow> bool" where
  "reaches_update c symb [] = False"
| "reaches_update c symb (p # ps) =
     (if p_symbol p = symb
      then (case close_position c symb (if 0 < positionAmt p then ''LONG'' else ''SHORT'') of
              Inl e \<Rightarrow> False
            | Inr u \<Rightarrow>
               (case futures_cancel_all_open_orders c symb of
                  Inl e \<Rightarrow> False
                | Inr v \<Rightarrow> True))
      else reaches_update c symb ps)"

definition closers :: "(int \<Rightarrow> bool) \<Rightarrow> follower_clients \<Rightarrow> string \<Rightarrow> int list" where
  "closers update_ok fs symb =
     map fst (filter (\<lambda>(tid, fd). update_ok tid
                        \<and> reaches_update (client fd) symb (get_positions (client fd))) fs)"

definition no_open_trade :: "int \<Rightarrow> string \<Rightarrow> database \<Rightarrow> bool" where
  "no_open_trade tid symb d =
     list_all (\<lambda>(i, r). \<not> (telegram_id r = tid \<and> symbol r = symb \<and> status r = ''OPEN''))
       (trades d)"

text \<open>
  Fixtures: a client that reports a LONG position in BTCUSDT and closes it, one for
  which \<open>close_position\<close> raises, and a ledger with one OPEN row of follower 7.
\<close>

abbreviation closing_client :: follower_client where
  "closing_client \<equiv>
     \<lparr>place_order = (\<lambda>ord. Inr ()),
      get_positions = [\<lparr>p_symbol = ''BTCUSDT'', positionAmt = 3 / 50\<rparr>],
      close_position = (\<lambda>s p. Inr ()), futures_cancel_all_open_orders = (\<lambda>s. Inr ())\<rparr>"

abbreviation failing_close_client :: follower_client where
  "failing_close_client \<equiv>
     \<lparr>place_order = (\<lambda>ord. Inr ()),
      get_positions = [\<lparr>p_symbol = ''BTCUSDT'', positionAmt = 3 / 50\<rparr>],
      close_position = (\<lambda>s p. Inl (BinanceAPIException ''Timeout waiting for response.'')),
      futures_cancel_all_open_orders = (\<lambda>s. Inr ())\<rparr>"

abbreviation open_ledger :: database where
  "open_ledger \<equiv>
     \<lparr>trades =
        [(1, \<lparr>symbol = ''BTCUSDT'', position_side = ''LONG'', entry_price = Some 50000,
              trade_size = Some 3000, status = ''OPEN'', pnl = None, pnl_percent = None,
              closed_at = None, telegram_id = 7, master_trade_id = None\<rparr>)],
      trades_seq = 1, master_trades = [], master_trades_seq = 0\<rparr>"

lemma update_closed_no_open:
  "no_open_trade tid symb (update_trade_status True tid symb ''CLOSED'' None None now d)"
  by (simp add: no_open_trade_def update_trade_status_def list_all_iff case_prod_unfold) auto

lemma update_keeps_no_open:
  "no_open_trade t symb d \<Longrightarrow>
   no_open_trade t symb (update_trade_status ok t' symb ''CLOSED'' None None now d)"
  by (simp add: no_open_trade_def update_trade_status_def list_all_iff case_prod_unfold) auto

lemma update_no_open_id:
  assumes "no_open_trade tid symb d"
  shows "update_trade_status ok tid symb st pa ppa now d = d"
proof -
  have "map (\<lambda>(i, r).
                if telegram_id r = tid \<and> symbol r = symb \<and> status r = ''OPEN''
                then (i, r\<lparr>status := st, closed_at := Some now,
                           pnl := (case pa of None \<Rightarrow> pnl r | Some v \<Rightarrow> Some v),
                           pnl_percent := (case ppa of
                                             None \<Rightarrow> pnl_percent r | Some v \<Rightarrow> Some v)\<rparr>)
                else (i, r))
             (trades d) = trades d"
    using assms by (intro map_idI) (auto simp: no_open_trade_def list_all_iff)
  then show ?thesis by (simp add: update_trade_status_def)
qed

lemma update_idem:
  "update_trade_status ok tid symb ''CLOSED'' None None now
     (update_trade_status ok tid symb ''CLOSED'' None None now d)
   = update_trade_status ok tid symb ''CLOSED'' None None now d"
proof (cases ok)
  case True
  have "update_trade_status True tid symb ''CLOSED'' None None now
          (update_trade_status True tid symb ''CLOSED'' None None now d)
        = update_trade_status True tid symb ''CLOSED'' None None now d"
    by (rule update_no_open_id) (rule update_closed_no_open)
  with True show ?thesis by simp
next
  case False
  then show ?thesis by (simp add: update_trade_status_def)
qed

lemma close_positions_eq:
  "close_positions update_ok c tid symb now ps d
     = (if reaches_update c symb ps
        then update_trade_status (update_ok tid) tid symb ''CLOSED'' None None now d else d)"
proof (induction ps arbitrary: d)
  case Nil
  show ?case by simp
next
  case (Cons p ps)
  show ?case
    by (simp add: Cons.IH update_idem split: sum.splits)
qed

lemma copy_position_close_keeps_no_open:
  "no_open_trade t symb d \<Longrightarrow>
   no_open_trade t symb (copy_position_close update_ok fs symb now d)"
proof (induction fs arbitrary: d)
  case Nil
  then show ?case by simp
next
  case (Cons f fs)
  obtain tid fd where f: "f = (tid, fd)" by (cases f)
  have "no_open_trade t symb
          (close_positions update_ok (client fd) tid symb now (get_positions (client fd)) d)"
    using Cons.prems by (simp add: close_positions_eq update_keeps_no_open)
  then show ?case by (simp add: f Cons.IH)
qed

lemma closers_no_open:
  "t \<in> set (closers update_ok fs symb) \<Longrightarrow>
   no_open_trade t symb (copy_position_close update_ok fs symb now d)"
proof (induction fs arbitrary: d)
  case Nil
  then show ?case by (simp add: closers_def)
next
  case (Cons f fs)
  obtain tid fd where f: "f = (tid, fd)" by (cases f)
  show ?case
  proof (cases "t = tid \<and> update_ok tid
                 \<and> reaches_update (client fd) symb (get_positions (client fd))")
    case True
    then have "no_open_trade t symb
                 (close_positions update_ok (client fd) tid symb now (get_positions (client fd)) d)"
      by (simp add: close_positions_eq update_closed_no_open)
    then show ?thesis
      by (simp add: f copy_position_close_keeps_no_open)
  next
    case False
    then have "t \<in> set (closers update_ok fs symb)"
      using Cons.prems by (auto simp: closers_def f split: if_splits)
    then show ?thesis by (simp add: f Cons.IH)
  qed
qed

lemma copy_position_close_id:
  "(\<And>t. t \<in> set (closers update_ok fs symb) \<Longrightarrow> no_open_trade t symb d)
   \<Longrightarrow> copy_position_close update_ok fs symb now d = d"
proof (induction fs arbitrary: d)
  case Nil
  show ?case by simp
next
  case (Cons f fs)
  obtain tid fd where f: "f = (tid, fd)" by (cases f)
  have step: "close_positions update_ok (client fd) tid symb now (get_positions (client fd)) d = d"
  proof (cases "update_ok tid \<and> reaches_update (client fd) symb (get_positions (client fd))")
    case True
    then have "tid \<in> set (closers update_ok (f # fs) symb)" by (simp add: closers_def f)
    then have "no_open_trade tid symb d" by (rule Cons.prems)
    then show ?thesis by (simp add: close_positions_eq update_no_open_id)
  next
    case False
    then show ?thesis by (auto simp: close_positions_eq update_trade_status_def)
  qed
  have "copy_position_close update_ok fs symb now d = d"
  proof (rule Cons.IH)
    fix t assume "t \<in> set (closers update_ok fs symb)"
    then have "t \<in> set (closers update_ok (f # fs) symb)" by (auto simp: closers_def)
    then show "no_open_trade t symb d" by (rule Cons.prems)
  qed
  then show ?case by (simp add: f step)
qed

lemma update_trade_status_keeps_closed:
  "length (trades (update_trade_status ok t symb st pa ppa now d)) = length (trades d)
   \<and> (\<forall>k < length (trades d). status (snd (trades d ! k)) \<noteq> ''OPEN'' \<longrightarrow>
          trades (update_trade_status ok t symb st pa ppa now d) ! k = trades d ! k)"
  by (simp add: update_trade_status_def case_prod_unfold)

lemma copy_position_close_keeps_closed:
  "length (trades (copy_position_close update_ok fs symb now d)) = length (trades d)
   \<and> (\<forall>k < length (trades d). status (snd (trades d ! k)) \<noteq> ''OPEN'' \<longrightarrow>
          trades (copy_position_close update_ok fs symb now d) ! k = trades d ! k)"
proof (induction fs arbitrary: d)
  case Nil
  show ?case by simp
next
  case (Cons f fs)
  obtain tid fd where f: "f = (tid, fd)" by (cases f)
  let ?d1 = "close_positions update_ok (client fd) tid symb now (get_positions (client fd)) d"
  have one: "length (trades ?d1) = length (trades d)
     \<and> (\<forall>k < length (trades d). status (snd (trades d ! k)) \<noteq> ''OPEN'' \<longrightarrow>
            trades ?d1 ! k = trades d ! k)"
    using update_trade_status_keeps_closed
            [of "update_ok tid" tid symb "''CLOSED''" None None now d]
    by (simp add: close_positions_eq)
  have rest: "length (trades (copy_position_close update_ok fs symb now ?d1)) = length (trades ?d1)
     \<and> (\<forall>k < length (trades ?d1). status (snd (trades ?d1 ! k)) \<noteq> ''OPEN'' \<longrightarrow>
            trades (copy_position_close update_ok fs symb now ?d1) ! k = trades ?d1 ! k)"
    by (rule Cons.IH)
  from one rest show ?case by (simp add: f)
qed

text \<open>
  C6, as the code has it. Whatever the clients and sqlite answer, processing a close
  event changes no row that is not OPEN: a row goes from OPEN to CLOSED at most once.
  And a replay of the event leaves the whole ledger as it is, whatever its time, if
  it arrives at a successful ledger update only for followers for which the first
  processing did: the same answers as before, or no position left to close.
\<close>

theorem close_replay_noop:
  assumes "set (closers update_ok' fs' symb) \<subseteq> set (closers update_ok fs symb)"
  shows "copy_position_close update_ok' fs' symb now'
           (copy_position_close update_ok fs symb now d)
           = copy_position_close update_ok fs symb now d
       \<and> (\<forall>k < length (trades d). status (snd (trades d ! k)) \<noteq> ''OPEN'' \<longrightarrow>
              trades (copy_position_close update_ok fs symb now d) ! k = trades d ! k)"
proof
  show "copy_position_close update_ok' fs' symb now'
           (copy_position_close update_ok fs symb now d)
           = copy_position_close update_ok fs symb now d"
  proof (rule copy_position_close_id)
    fix t assume "t \<in> set (closers update_ok' fs' symb)"
    with assms have "t \<in> set (closers update_ok fs symb)" by blast
    then show "no_open_trade t symb (copy_position_close update_ok fs symb now d)"
      by (rule closers_no_open)
  qed
  show "\<forall>k < length (trades d). status (snd (trades d ! k)) \<noteq> ''OPEN'' \<longrightarrow>
              trades (copy_position_close update_ok fs symb now d) ! k = trades d ! k"
    using copy_position_close_keeps_closed [of update_ok fs symb now d] by blast
qed

theorem close_replay_noop_witness:
  "copy_position_close (\<lambda>t. True)
      [(7, \<lparr>client = closing_client, settings = scenario_settings\<rparr>)] ''BTCUSDT'' 20
      (copy_position_close (\<lambda>t. True)
         [(7, \<lparr>client = closing_client, settings = scenario_settings\<rparr>)] ''BTCUSDT'' 10
         open_ledger)
     = \<lparr>trades =
            [(1, \<lparr>symbol = ''BTCUSDT'', position_side = ''LONG'', entry_price = Some 50000,
                  trade_size = Some 3000, status = ''CLOSED'', pnl = None, pnl_percent = None,
                  closed_at = Some 10, telegram_id = 7, master_trade_id = None\<rparr>)],
          trades_seq = 1, master_trades = [], master_trades_seq = 0\<rparr>"
proof -
  let ?fs = "[(7, \<lparr>client = closing_client, settings = scenario_settings\<rparr>)]"
  have sub: "set (closers (\<lambda>t. True) ?fs ''BTCUSDT'') \<subseteq> set (closers (\<lambda>t. True) ?fs ''BTCUSDT'')"
    by simp
  show ?thesis
    using close_replay_noop [OF sub, where now' = 20 and now = 10 and d = open_ledger]
    by (simp add: update_trade_status_def)
qed

text \<open>
  C6, as the claim states it, fails. The close event of BTCUSDT is processed while
  \<open>close_position\<close> raises for follower 7: the handler logs, and the row stays OPEN.
  The same event is processed again, and the call now returns: the replay closes the
  row.
\<close>

theorem close_replay_changes_counterexample:
  "copy_position_close (\<lambda>t. True)
      [(7, \<lparr>client = failing_close_client, settings = scenario_settings\<rparr>)] ''BTCUSDT'' 10
      open_ledger = open_ledger
   \<and> copy_position_close (\<lambda>t. True)
      [(7, \<lparr>client = closing_client, settings = scenario_settings\<rparr>)] ''BTCUSDT'' 20
      (copy_position_close (\<lambda>t. True)
         [(7, \<lparr>client = failing_close_client, settings = scenario_settings\<rparr>)] ''BTCUSDT'' 10
         open_ledger)
     = \<lparr>trades =
            [(1, \<lparr>symbol = ''BTCUSDT'', position_side = ''LONG'', entry_price = Some 50000,
                  trade_size = Some 3000, status = ''CLOSED'', pnl = None, pnl_percent = None,
                  closed_at = Some 20, telegram_id = 7, master_trade_id = None\<rparr>)],
          trades_seq = 1, master_trades = [], master_trades_seq = 0\<rparr>"
  by (simp add: update_trade_status_def)

section \<open>Closing a master trade: \<open>CopyTrader.handle_filled_master_order\<close>\<close>

text \<open>
  \<open>Database.update_master_trade\<close> (lines 328 to 348): the UPDATE of the columns in
  \<open>update_data\<close> on the row with the given id. The dictionary is the record of the
  four keys the caller gives, \<open>None\<close> for an absent key.
\<close>

record update_data =
  u_status :: "string option"
  u_closed_at :: "nat option"
  u_pnl :: "rat option"
  u_pnl_percent :: "rat option"

definition update_master_trade :: "nat \<Rightarrow> update_data \<Rightarrow> database \<Rightarrow> database" where
  "update_master_trade trade_id upd d =
     d\<lparr>master_trades :=
         map (\<lambda>(i, r).
                if i = trade_id
                then (i, r\<lparr>status := (case u_status upd of None \<Rightarrow> status r | Some v \<Rightarrow> v),
                           closed_at := (case u_closed_at upd of
                                           None \<Rightarrow> closed_at r | Some v \<Rightarrow> Some v),
                           pnl := (case u_pnl upd of None \<Rightarrow> pnl r | Some v \<Rightarrow> Some v),
                           pnl_percent := (case u_pnl_percent upd of
                                             None \<Rightarrow> pnl_percent r | Some v \<Rightarrow> Some v)\<rparr>)
                else (i, r))
             (master_trades d)\<rparr>"

text \<open>Line 309 of \<^verbatim>\<open>src/copy_trader.py\<close>.\<close>

definition is_closing_order :: "string \<Rightarrow> string \<Rightarrow> bool" where
  "is_closing_order pside side =
     ((pside = ''LONG'' \<and> side = ''SELL'') \<or> (pside = ''SHORT'' \<and> side = ''BUY''))"

text \<open>
  Lines 319 to 325: the PnL of the closed trade and its percentage. An
  \<open>entry_price\<close> that is NULL (line 265 stores NULL for an order without price)
  raises TypeError in the subtraction; a zero divisor raises ZeroDivisionError.
  \<^verbatim>\<open>
  if position_side == 'LONG':
      pnl = executed_qty * (avg_price - entry_price)
      pnl_percent = ((avg_price / entry_price) - 1) * 100
  else:  # SHORT
      pnl = executed_qty * (entry_price - avg_price)
      pnl_percent = ((entry_price / avg_price) - 1) * 100
  \<close>
\<close>

definition closing_pnl :: "string \<Rightarrow> rat option \<Rightarrow> rat \<Rightarrow> rat \<Rightarrow> py_error + rat \<times> rat" where
  "closing_pnl pside entry avg_price executed_qty =
     (case entry of
        None \<Rightarrow> Inl TypeError
      | Some e \<Rightarrow>
          if pside = ''LONG''
          then (case py_truediv avg_price e of
                  Inl err \<Rightarrow> Inl err
                | Inr q \<Rightarrow> Inr (executed_qty * (avg_price - e), (q - 1) * 100))
          else (case py_truediv e avg_price of
                  Inl err \<Rightarrow> Inl err
                | Inr q \<Rightarrow> Inr (executed_qty * (e - avg_price), (q - 1) * 100)))"

text \<open>
  The loop of lines 306 to 334 over the OPEN master trades read at line 303. The
  whole loop stands in one \<^verbatim>\<open>try\<close> block: an exception ends it, is logged, and
  is returned here beside the database. \<open>close_user_trades\<close> is a parameter: the
  method is called at line 334 and defined in none of the repository's files, where
  the call therefore raises AttributeError. The parameter \<open>order_id\<close> of
  \<open>handle_filled_master_order\<close> is not used by its body and is left out.
\<close>

fun close_master_trades ::
  "(nat \<Rightarrow> rat \<Rightarrow> database \<Rightarrow> py_error + database) \<Rightarrow> string \<Rightarrow> string \<Rightarrow> rat \<Rightarrow> rat \<Rightarrow> nat
     \<Rightarrow> master_trade table \<Rightarrow> database \<Rightarrow> database \<times> py_error option" where
  "close_master_trades close_user_trades symb side avg_price executed_qty now [] d = (d, None)"
| "close_master_trades close_user_trades symb side avg_price executed_qty now ((i, t) # rest) d =
     (if symbol t = symb \<and> is_closing_order (position_side t) side
      then (case closing_pnl (position_side t) (entry_price t) avg_price executed_qty of
              Inl e \<Rightarrow> (d, Some e)
            | Inr (p, pp) \<Rightarrow>
               (case close_user_trades i avg_price
                       (update_master_trade i
                          \<lparr>u_status = Some ''CLOSED'', u_closed_at = Some now,
                           u_pnl = Some p, u_pnl_percent = Some pp\<rparr> d) of
                  Inl e \<Rightarrow>
                    (update_master_trade i
                       \<lparr>u_status = Some ''CLOSED'', u_closed_at = Some now,
                        u_pnl = Some p, u_pnl_percent = Some pp\<rparr> d, Some e)
                | Inr d' \<Rightarrow>
                    close_master_trades close_user_trades symb side avg_price executed_qty
                      now rest d'))
      else close_master_trades close_user_trades symb side avg_price executed_qty now rest d)"

definition handle_filled_master_order ::
  "(nat \<Rightarrow> rat \<Rightarrow> database \<Rightarrow> py_error + database) \<Rightarrow> string \<Rightarrow> string \<Rightarrow> rat \<Rightarrow> rat \<Rightarrow> nat
     \<Rightarrow> database \<Rightarrow> database \<times> py_error option" where
  "handle_filled_master_order close_user_trades symb side avg_price executed_qty now d =
     close_master_trades close_user_trades symb side avg_price executed_qty now
       (filter (\<lambda>(i, t). status t = ''OPEN'') (master_trades d)) d"

lemma closing_pnl_long:
  "e \<noteq> 0 \<Longrightarrow> closing_pnl ''LONG'' (Some e) avg_price executed_qty
     = Inr (executed_qty * (avg_price - e), (avg_price - e) / e * 100)"
  by (simp add: closing_pnl_def py_truediv_def diff_divide_distrib)

lemma closing_pnl_short:
  "avg_price \<noteq> 0 \<Longrightarrow> closing_pnl ''SHORT'' (Some e) avg_price executed_qty
     = Inr (executed_qty * (e - avg_price), (e - avg_price) / avg_price * 100)"
  by (simp add: closing_pnl_def py_truediv_def diff_divide_distrib)

text \<open>
  C4. The code at the failing input: a SHORT master trade entered at 50000 is closed
  by a BUY fill of quantity 1 at 40000. The ledger records \<open>pnl = 10000\<close> and
  \<open>pnl_percent = 25\<close>, the move relative to the exit price, where the claim has
  \<open>(50000 - 40000) / 50000 * 100 = 20\<close>.
\<close>

theorem short_close_pnl_percent:
  "map (\<lambda>(i, r). (status r, pnl r, pnl_percent r))
     (master_trades (fst (handle_filled_master_order (\<lambda>i p d. Inl AttributeError)
        ''BTCUSDT'' ''BUY'' 40000 1 9
        \<lparr>trades = [], trades_seq = 0,
         master_trades =
           [(1, \<lparr>symbol = ''BTCUSDT'', position_side = ''SHORT'', entry_price = Some 50000,
                 trade_size = Some 1, status = ''OPEN'', pnl = None, pnl_percent = None,
                 closed_at = None\<rparr>)],
         master_trades_seq = 1\<rparr>)))
   = [(''CLOSED'', Some 10000, Some 25)]"
  by (simp add: handle_filled_master_order_def is_closing_order_def closing_pnl_def
        py_truediv_def update_master_trade_def)

section \<open>The reconnect loop: \<open>BinanceWebsocketClient._run_websocket\<close>\<close>

text \<open>
  The client outside test mode. The websocket library, the exchange and the thread
  that calls \<open>stop()\<close> are outside the program; a \<open>session\<close> records what they do
  during one call of \<open>_connect_and_subscribe\<close> and the sleep after it:
  \<^item> \<open>raises\<close>: the call raises, with this text (\<open>WebSocketApp(...)\<close> or
    \<open>run_forever()\<close>);
  \<^item> \<open>opened\<close>: the connection is established, so the library calls \<open>_on_open\<close>;
  \<^item> \<open>listen_key_response\<close>: the answer to the POST of \<open>_get_listen_key\<close>, the
    request that carries the API key and the signature: a status code and the
    \<open>listenKey\<close> of the body, or an exception. The exchange answers a revoked or
    invalid key with status 401;
  \<^item> \<open>send_raises\<close>: \<open>ws.send\<close> in \<open>_subscribe_user_data\<close> raises;
  \<^item> \<open>ws_errors\<close>: the errors the library hands to \<open>_on_ws_error\<close>;
  \<^item> \<open>stop_in_connect\<close>, \<open>stop_in_sleep\<close>: \<open>stop()\<close> is called during the
    session, which ends it, or during the sleep after it.
\<close>

datatype http_result = HttpResponse nat "string option" | HttpRaised

record session =
  raises :: "string option"
  opened :: bool
  listen_key_response :: http_result
  send_raises :: bool
  ws_errors :: "string list"
  stop_in_connect :: bool
  stop_in_sleep :: bool

text \<open>
  The fields of the client the loop reads: the two keys, and whether the callback
  \<open>on_error\<close> is set.
\<close>

record ws_client =
  api_key :: string
  api_secret :: string
  has_on_error :: bool

text \<open>
  What the loop does: \<open>connects\<close> counts the calls of \<open>_connect_and_subscribe\<close>,
  \<open>subscribed\<close> lists the listen keys of the subscription requests sent,
  \<open>reported\<close> the texts passed to \<open>on_error\<close>, \<open>sleeps\<close> counts the sleeps of
  5 seconds.
\<close>

record ws_state =
  keep_running :: bool
  connects :: nat
  subscribed :: "string list"
  reported :: "string list"
  sleeps :: nat

text \<open>
  \<open>_get_listen_key\<close> (lines 173 to 220): without keys, on a status other than 200,
  on a body without \<open>listenKey\<close> and on any exception it logs and returns
  \<open>None\<close>.
\<close>

definition get_listen_key :: "ws_client \<Rightarrow> http_result \<Rightarrow> string option" where
  "get_listen_key c r =
     (if api_key c = [] \<or> api_secret c = [] then None
      else (case r of
              HttpRaised \<Rightarrow> None
            | HttpResponse code key \<Rightarrow>
                if code = 200
                then (case key of None \<Rightarrow> None | Some k \<Rightarrow> if k = [] then None else Some k)
                else None))"

text \<open>
  \<open>_on_open\<close> (lines 155 to 171): the subscription is sent when there is a listen
  key; every exception is caught and logged, not propagated.
\<close>

definition on_open :: "ws_client \<Rightarrow> session \<Rightarrow> ws_state \<Rightarrow> ws_state" where
  "on_open c a s =
     (case get_listen_key c (listen_key_response a) of
        None \<Rightarrow> s
      | Some k \<Rightarrow> if send_raises a then s else s\<lparr>subscribed := subscribed s @ [k]\<rparr>)"

text \<open>\<open>_on_ws_error\<close> (lines 307 to 311).\<close>

definition on_ws_error :: "ws_client \<Rightarrow> string \<Rightarrow> ws_state \<Rightarrow> ws_state" where
  "on_ws_error c e s = (if has_on_error c then s\<lparr>reported := reported s @ [e]\<rparr> else s)"

text \<open>\<open>_connect_and_subscribe\<close> (lines 122 to 153), with the callbacks the library runs.\<close>

definition connect_and_subscribe :: "ws_client \<Rightarrow> session \<Rightarrow> ws_state \<Rightarrow> string + ws_state" where
  "connect_and_subscribe c a s =
     (case raises a of
        Some e \<Rightarrow> Inl e
      | None \<Rightarrow> Inr (fold (on_ws_error c) (ws_errors a) (if opened a then on_open c a s else s)))"

text \<open>
  One turn of the loop of lines 110 to 120:
  \<^verbatim>\<open>
  while self.keep_running:
      try:
          self._connect_and_subscribe()
      except Exception as e:
          logger.error(...)
          if self.on_error:
              self.on_error(str(e))
      if self.keep_running:
          time.sleep(5)
  \<close>
\<close>

definition run_once :: "ws_client \<Rightarrow> session \<Rightarrow> ws_state \<Rightarrow> ws_state" where
  "run_once c a s =
     (let s1 = (case connect_and_subscribe c a (s\<lparr>connects := connects s + 1\<rparr>) of
                  Inl e \<Rightarrow> on_ws_error c e (s\<lparr>connects := connects s + 1\<rparr>)
                | Inr s' \<Rightarrow> s')
      in if stop_in_connect a then s1\<lparr>keep_running := False\<rparr>
         else s1\<lparr>sleeps := sleeps s1 + 1, keep_running := \<not> stop_in_sleep a\<rparr>)"

text \<open>
  The loop, driven by the list of the sessions. It can go on forever: the result is
  \<open>None\<close> when the list ends with \<open>keep_running\<close> still set, and the final state
  when the loop is left.
\<close>

fun run_websocket :: "ws_client \<Rightarrow> session list \<Rightarrow> ws_state \<Rightarrow> ws_state option" where
  "run_websocket c [] s = (if keep_running s then None else Some s)"
| "run_websocket c (a # rest) s =
     (if keep_running s then run_websocket c rest (run_once c a s) else Some s)"

text \<open>What a session adds to \<open>subscribed\<close> and to \<open>reported\<close>.\<close>

definition subscriptions_of :: "ws_client \<Rightarrow> session \<Rightarrow> string list" where
  "subscriptions_of c a =
     (case raises a of
        Some e \<Rightarrow> []
      | None \<Rightarrow>
          if opened a \<and> \<not> send_raises a
          then (case get_listen_key c (listen_key_response a) of None \<Rightarrow> [] | Some k \<Rightarrow> [k])
          else [])"

definition reports_of :: "ws_client \<Rightarrow> session \<Rightarrow> string list" where
  "reports_of c a =
     (if has_on_error c then (case raises a of Some e \<Rightarrow> [e] | None \<Rightarrow> ws_errors a) else [])"

text \<open>
  Fixtures: a client with keys and callback; a session in which the listen-key
  request is answered 401 and the connection later ends without error; a session
  during which \<open>stop()\<close> is called.
\<close>

abbreviation keyed_client :: ws_client where
  "keyed_client \<equiv> \<lparr>api_key = ''revoked-key'', api_secret = ''secret'', has_on_error = True\<rparr>"

abbreviation rejected_session :: session where
  "rejected_session \<equiv>
     \<lparr>raises = None, opened = True, listen_key_response = HttpResponse 401 None,
      send_raises = False, ws_errors = [], stop_in_connect = False, stop_in_sleep = False\<rparr>"

abbreviation stopped_session :: session where
  "stopped_session \<equiv>
     \<lparr>raises = None, opened = True, listen_key_response = HttpResponse 401 None,
      send_raises = False, ws_errors = [], stop_in_connect = True, stop_in_sleep = False\<rparr>"

lemma fold_on_ws_error:
  "fold (on_ws_error c) es s
     = (if has_on_error c then s\<lparr>reported := reported s @ es\<rparr> else s)"
  by (induction es arbitrary: s) (simp_all add: on_ws_error_def)

lemma run_once_eq:
  "run_once c a s
     = (if stop_in_connect a
        then s\<lparr>keep_running := False, connects := connects s + 1,
               subscribed := subscribed s @ subscriptions_of c a,
               reported := reported s @ reports_of c a\<rparr>
        else s\<lparr>keep_running := \<not> stop_in_sleep a, connects := connects s + 1,
               subscribed := subscribed s @ subscriptions_of c a,
               reported := reported s @ reports_of c a,
               sleeps := sleeps s + 1\<rparr>)"
  by (simp add: run_once_def connect_and_subscribe_def fold_on_ws_error on_ws_error_def
        on_open_def subscriptions_of_def reports_of_def Let_def
      split: option.splits)

lemma run_websocket_stopped: "\<not> keep_running s \<Longrightarrow> run_websocket c script s = Some s"
  by (cases script) simp_all

lemma rejected_no_listen_key: "code \<noteq> 200 \<Longrightarrow> get_listen_key c (HttpResponse code key) = None"
  by (simp add: get_listen_key_def)

text \<open>
  C9, as the code has it. A session whose listen-key request is not answered with a
  key, a rejection of the credentials included, sends no subscription, and the
  rejection is not among what is reported through \<open>on_error\<close>: that is only an
  exception of the call or the errors of the library, when the callback is set. And
  as long as \<open>stop()\<close> is not called, every session is followed by a sleep of
  5 seconds and another connection, whatever happened in it. The loop is left when
  \<open>stop()\<close> clears \<open>keep_running\<close>, here during the last session, and has then
  made all the connections.
\<close>

theorem run_websocket_retries_every_error:
  assumes "keep_running s"
    and "\<forall>a \<in> set script. \<not> stop_in_connect a \<and> \<not> stop_in_sleep a"
    and "stop_in_connect z"
  shows "run_websocket c (script @ [z]) s
           = Some \<lparr>keep_running = False,
                   connects = connects s + length script + 1,
                   subscribed = subscribed s @ concat (map (subscriptions_of c) (script @ [z])),
                   reported = reported s @ concat (map (reports_of c) (script @ [z])),
                   sleeps = sleeps s + length script\<rparr>
       \<and> (\<forall>a \<in> set (script @ [z]).
            get_listen_key c (listen_key_response a) = None \<longrightarrow> subscriptions_of c a = [])
       \<and> (\<forall>a \<in> set (script @ [z]). \<forall>r.
            reports_of c (a\<lparr>listen_key_response := r\<rparr>) = reports_of c a)"
proof (intro conjI)
  show "run_websocket c (script @ [z]) s
           = Some \<lparr>keep_running = False,
                   connects = connects s + length script + 1,
                   subscribed = subscribed s @ concat (map (subscriptions_of c) (script @ [z])),
                   reported = reported s @ concat (map (reports_of c) (script @ [z])),
                   sleeps = sleeps s + length script\<rparr>"
    using assms
  proof (induction script arbitrary: s)
    case Nil
    then show ?case by (simp add: run_once_eq run_websocket_stopped)
  next
    case (Cons a script)
    let ?s1 = "run_once c a s"
    have s1: "?s1 = s\<lparr>keep_running := True, connects := connects s + 1,
                      subscribed := subscribed s @ subscriptions_of c a,
                      reported := reported s @ reports_of c a,
                      sleeps := sleeps s + 1\<rparr>"
      using Cons.prems by (simp add: run_once_eq)
    have "run_websocket c (script @ [z]) ?s1
          = Some \<lparr>keep_running = False,
                  connects = connects ?s1 + length script + 1,
                  subscribed = subscribed ?s1 @ concat (map (subscriptions_of c) (script @ [z])),
                  reported = reported ?s1 @ concat (map (reports_of c) (script @ [z])),
                  sleeps = sleeps ?s1 + length script\<rparr>"
      using Cons.prems by (intro Cons.IH) (simp_all add: s1)
    then show ?case
      using Cons.prems by (simp add: s1)
  qed
  show "\<forall>a \<in> set (script @ [z]).
            get_listen_key c (listen_key_response a) = None \<longrightarrow> subscriptions_of c a = []"
    by (simp add: subscriptions_of_def split: option.splits)
  show "\<forall>a \<in> set (script @ [z]). \<forall>r.
            reports_of c (a\<lparr>listen_key_response := r\<rparr>) = reports_of c a"
    by (simp add: reports_of_def split: option.splits)
qed

theorem run_websocket_retries_every_error_witness:
  "run_websocket keyed_client [rejected_session, rejected_session, stopped_session]
     \<lparr>keep_running = True, connects = 0, subscribed = [], reported = [], sleeps = 0\<rparr>
   = Some \<lparr>keep_running = False, connects = 3, subscribed = [], reported = [], sleeps = 2\<rparr>"
  using run_websocket_retries_every_error
          [where s = "\<lparr>keep_running = True, connects = 0, subscribed = [], reported = [],
                        sleeps = 0\<rparr>"
             and script = "[rejected_session, rejected_session]"
             and z = stopped_session and c = keyed_client]
  by (simp add: subscriptions_of_def reports_of_def get_listen_key_def)

text \<open>
  C9, as the claim states it, fails. The listen-key request of the first session is
  answered 401, the answer to revoked credentials. Nothing is reported through
  \<open>on_error\<close>, and when the connection has ended the loop sleeps and connects again.
\<close>

theorem authentication_failure_retried_counterexample:
  "run_websocket keyed_client [rejected_session, stopped_session]
     \<lparr>keep_running = True, connects = 0, subscribed = [], reported = [], sleeps = 0\<rparr>
   = Some \<lparr>keep_running = False, connects = 2, subscribed = [], reported = [], sleeps = 1\<rparr>"
  by (simp add: run_once_def connect_and_subscribe_def on_open_def get_listen_key_def Let_def)


end
